theory Spec2Isabelle
  imports Complex_Main "HOL-Library.Sublist" "HOL-Library.Multiset" "HOL-Library.Signed_Division"
begin

section \<open>Strings: the parts of Go's \<open>strings\<close> package the parsers use\<close>

text \<open>
  A Go string is a sequence of bytes, here a \<open>char list\<close>: \<open>len(line)\<close> is
  \<open>length line\<close>, \<open>line[1]\<close> is \<open>line ! 1\<close> and \<open>line[2:]\<close> is \<open>drop 2 line\<close>.

  \<open>strings.TrimSpace\<close> removes leading and trailing white space as Unicode defines it
  (\<open>unicode.IsSpace\<close>): the six ASCII characters tab, line feed, vertical tab, form feed,
  carriage return and space, and the code points U+0085, U+00A0, U+1680, U+2000 to
  U+200A, U+2028, U+2029, U+202F, U+205F and U+3000. In a byte string a white-space
  rune is one of the byte sequences below (its UTF-8 encoding).
\<close>

definition space_runes :: "string list" where
  "space_runes =
    [[CHR 0x09], [CHR 0x0A], [CHR 0x0B], [CHR 0x0C], [CHR 0x0D], [CHR 0x20],
     [CHR 0xC2, CHR 0x85], [CHR 0xC2, CHR 0xA0],
     [CHR 0xE1, CHR 0x9A, CHR 0x80],
     [CHR 0xE2, CHR 0x80, CHR 0x80], [CHR 0xE2, CHR 0x80, CHR 0x81],
     [CHR 0xE2, CHR 0x80, CHR 0x82], [CHR 0xE2, CHR 0x80, CHR 0x83],
     [CHR 0xE2, CHR 0x80, CHR 0x84], [CHR 0xE2, CHR 0x80, CHR 0x85],
     [CHR 0xE2, CHR 0x80, CHR 0x86], [CHR 0xE2, CHR 0x80, CHR 0x87],
     [CHR 0xE2, CHR 0x80, CHR 0x88], [CHR 0xE2, CHR 0x80, CHR 0x89],
     [CHR 0xE2, CHR 0x80, CHR 0x8A],
     [CHR 0xE2, CHR 0x80, CHR 0xA8], [CHR 0xE2, CHR 0x80, CHR 0xA9],
     [CHR 0xE2, CHR 0x80, CHR 0xAF],
     [CHR 0xE2, CHR 0x81, CHR 0x9F],
     [CHR 0xE3, CHR 0x80, CHR 0x80]]"

text \<open>The white-space rune a string starts with, if it starts with one.\<close>

definition leading_rune :: "string list \<Rightarrow> string \<Rightarrow> string option" where
  "leading_rune rs s = find (\<lambda>r. r \<noteq> [] \<and> take (length r) s = r) rs"

function strip_runes :: "string list \<Rightarrow> string \<Rightarrow> string" where
  "strip_runes rs s =
     (case leading_rune rs s of
        None \<Rightarrow> s
      | Some r \<Rightarrow> strip_runes rs (drop (length r) s))"
  by pat_completeness auto
termination
proof (relation "measure (\<lambda>(rs, s). length s)")
  show "wf (measure (\<lambda>(rs, s). length s))" by simp
next
  fix rs :: "string list" and s r :: string
  assume "leading_rune rs s = Some r"
  then have "r \<noteq> []" and "take (length r) s = r"
    by (auto simp: leading_rune_def find_Some_iff)
  then have "s \<noteq> []" and "0 < length r"
    by auto
  then show "((rs, drop (length r) s), (rs, s)) \<in> measure (\<lambda>(rs, s). length s)"
    by simp
qed

declare strip_runes.simps [simp del]

definition TrimLeftSpace :: "string \<Rightarrow> string" where
  "TrimLeftSpace s = strip_runes space_runes s"

definition TrimRightSpace :: "string \<Rightarrow> string" where
  "TrimRightSpace s = rev (strip_runes (map rev space_runes) (rev s))"

definition TrimSpace :: "string \<Rightarrow> string" where
  "TrimSpace s = TrimRightSpace (TrimLeftSpace s)"

text \<open>
  \<open>strings.Split(s, "\n")\<close>: the pieces between the separators, one more than there
  are separators (so the empty string gives one empty piece). \<open>piece\<close> is the piece
  being read.
\<close>

fun Split_from :: "string \<Rightarrow> string \<Rightarrow> char \<Rightarrow> string list" where
  "Split_from piece [] sep = [piece]"
| "Split_from piece (c # cs) sep =
     (if c = sep then piece # Split_from [] cs sep else Split_from (piece @ [c]) cs sep)"

definition Split :: "string \<Rightarrow> char \<Rightarrow> string list" where
  "Split s sep = Split_from [] s sep"

text \<open>\<open>strings.Index(s, "(")\<close>: the index of the first such byte, or \<open>-1\<close>;
  \<open>i\<close> is the index of the byte being read.\<close>

fun Index_from :: "int \<Rightarrow> string \<Rightarrow> char \<Rightarrow> int" where
  "Index_from i [] c = -1"
| "Index_from i (x # xs) c = (if x = c then i else Index_from (i + 1) xs c)"

definition Index :: "string \<Rightarrow> char \<Rightarrow> int" where
  "Index s c = Index_from 0 s c"

text \<open>\<open>strings.Join(xs, sep)\<close>.\<close>

fun Join :: "string list \<Rightarrow> string \<Rightarrow> string" where
  "Join [] sep = []"
| "Join [x] sep = x"
| "Join (x # y # ys) sep = x @ sep @ Join (y # ys) sep"

section \<open>reflect/reflection.go: the parsers\<close>

text \<open>
  \<open>parseQuestions\<close>: the loop over the lines, with the slice \<open>questions\<close> it appends to.
\<close>

fun parseQuestions_loop :: "string list \<Rightarrow> string list \<Rightarrow> string list" where
  "parseQuestions_loop questions [] = questions"
| "parseQuestions_loop questions (l # lines) =
     (let line = TrimSpace l in
      if line = [] then parseQuestions_loop questions lines
      else
        let line = (if length line > 2 \<and> (line ! 1 = CHR ''.'' \<or> line ! 1 = CHR '')'')
                    then TrimSpace (drop 2 line) else line)
        in parseQuestions_loop (questions @ [line]) lines)"

definition parseQuestions :: "string \<Rightarrow> string list" where
  "parseQuestions output = parseQuestions_loop [] (Split output (CHR 0x0A))"

text \<open>
  \<open>parseInsights\<close>: the same loop, then the line is cut at the first \<open>(\<close> and trimmed.
\<close>

fun parseInsights_loop :: "string list \<Rightarrow> string list \<Rightarrow> string list" where
  "parseInsights_loop insights [] = insights"
| "parseInsights_loop insights (l # lines) =
     (let line = TrimSpace l in
      if line = [] then parseInsights_loop insights lines
      else
        let line = (if length line > 2 \<and> (line ! 1 = CHR ''.'' \<or> line ! 1 = CHR '')'')
                    then TrimSpace (drop 2 line) else line);
            idx = Index line (CHR ''('');
            line = (if idx \<noteq> -1 then take (nat idx) line else line)
        in parseInsights_loop (insights @ [TrimSpace line]) lines)"

definition parseInsights :: "string \<Rightarrow> string list" where
  "parseInsights output = parseInsights_loop [] (Split output (CHR 0x0A))"

section \<open>Errors, time and the outside world\<close>

text \<open>
  A Go \<open>error\<close> value: one the client or \<open>strconv\<close> made, or one wrapped by
  \<open>fmt.Errorf("...: %w", err)\<close>. A call returns a value, returns an error, or panics
  (an index out of range).
\<close>

datatype error = Error string | Errorf string error

datatype 'a result = Ok 'a | Err error | Panic

text \<open>
  A \<open>time.Time\<close> is a reading of the clock, in nanoseconds; a \<open>time.Duration\<close> is an
  \<open>int64\<close> count of nanoseconds, and \<open>Sub\<close> saturates at its bounds. \<open>Hours\<close> is
  \<open>float64(d / Hour) + float64(d % Hour) / (60 * 60 * 1e9)\<close>, with Go's truncating
  division.

  The \<open>float32\<close> and \<open>float64\<close> of the source are read as real numbers: rounding,
  overflow and NaN are outside this model.
\<close>

type_synonym Time = int
type_synonym Duration = int

definition minDuration :: Duration where
  "minDuration = - (2 ^ 63)"

definition maxDuration :: Duration where
  "maxDuration = 2 ^ 63 - 1"

definition Sub :: "Time \<Rightarrow> Time \<Rightarrow> Duration" where
  "Sub t u =
     (if t - u < minDuration then minDuration
      else if maxDuration < t - u then maxDuration
      else t - u)"

definition Hour :: Duration where
  "Hour = 3600000000000"

definition Hours :: "Duration \<Rightarrow> real" where
  "Hours d = real_of_int (d sdiv Hour) + real_of_int (d smod Hour) / (60 * 60 * 1000000000)"

section \<open>memory/memory.go: the memory stream\<close>

record MemoryObject =
  Description :: string
  CreationTime :: Time
  LastAccessedTime :: Time
  Importance :: real
  Embedding :: "real list"

record RetrievedMemory =
  Memory :: MemoryObject
  Score :: real

record ChatCompletionMessage =
  Role :: string
  Content :: string

record ChatCompletionRequest =
  Model :: string
  Messages :: "ChatCompletionMessage list"
  Temperature :: real

record EmbeddingRequest =
  Input :: "string list"
  EmbeddingModel :: string

text \<open>
  What the code calls and does not define: the OpenAI client (a chat completion answers
  with the contents of its choices, an embedding request with the vectors of its data, or
  with an error), the clock, \<open>strconv.ParseFloat\<close> and \<open>sort.Slice\<close>. The client and
  the clock act on a state \<open>'w\<close> of the outside world, which every call may change.
\<close>

record 'w env =
  CreateChatCompletion :: "ChatCompletionRequest \<Rightarrow> 'w \<Rightarrow> (error + string list) \<times> 'w"
  CreateEmbeddings :: "EmbeddingRequest \<Rightarrow> 'w \<Rightarrow> (error + real list list) \<times> 'w"
  Now :: "'w \<Rightarrow> Time \<times> 'w"
  ParseFloat :: "string \<Rightarrow> nat \<Rightarrow> error + real"
  sort_Slice :: "RetrievedMemory list \<Rightarrow> (RetrievedMemory \<Rightarrow> RetrievedMemory \<Rightarrow> bool)
                   \<Rightarrow> RetrievedMemory list"

definition GPT4oMini :: string where
  "GPT4oMini = ''gpt-4o-mini''"

definition SmallEmbedding3 :: string where
  "SmallEmbedding3 = ''text-embedding-3-small''"

definition getEmbedding :: "'w env \<Rightarrow> string \<Rightarrow> 'w \<Rightarrow> real list result \<times> 'w" where
  "getEmbedding env text w =
     (case CreateEmbeddings env \<lparr>Input = [text], EmbeddingModel = SmallEmbedding3\<rparr> w of
        (Inl err, w') \<Rightarrow> (Err err, w')
      | (Inr data, w') \<Rightarrow>
          (case data of [] \<Rightarrow> (Panic, w') | embedding # _ \<Rightarrow> (Ok embedding, w')))"

definition parseImportanceRating :: "'w env \<Rightarrow> string \<Rightarrow> error + real" where
  "parseImportanceRating env response =
     (case ParseFloat env (TrimSpace response) 32 of
        Inl err \<Rightarrow> Inl err
      | Inr rating \<Rightarrow> Inr rating)"

definition rateImportance_sysPrompt :: string where
  "rateImportance_sysPrompt = ''On a scale of 1 to 10, where 1 is mundane (e.g., brushing teeth) and 10 is poignant (e.g., a life-changing event), rate the importance of the given reflection.  Output a single float value only, e.g., 7.5.  Include no other comment or opinion.''"

definition rateImportance :: "'w env \<Rightarrow> string \<Rightarrow> 'w \<Rightarrow> real result \<times> 'w" where
  "rateImportance env reflection w =
     (case CreateChatCompletion env
             \<lparr>Model = GPT4oMini,
              Messages = [\<lparr>Role = ''system'', Content = rateImportance_sysPrompt\<rparr>,
                          \<lparr>Role = ''user'', Content = reflection\<rparr>],
              Temperature = 1\<rparr> w of
        (Inl err, w') \<Rightarrow> (Err err, w')
      | (Inr choices, w') \<Rightarrow>
          (case choices of
             [] \<Rightarrow> (Panic, w')
           | content # _ \<Rightarrow>
               (case parseImportanceRating env content of
                  Inl err \<Rightarrow> (Err err, w')
                | Inr rating \<Rightarrow> (Ok rating, w'))))"

text \<open>
  \<open>AddMemory\<close>: the state is the slice \<open>ms.Memories\<close> and the outside world. The two
  fields of the struct literal call \<open>time.Now()\<close> one after the other.
\<close>

definition AddMemory ::
  "'w env \<Rightarrow> string \<Rightarrow> MemoryObject list \<times> 'w \<Rightarrow> unit result \<times> MemoryObject list \<times> 'w" where
  "AddMemory env description s =
     (case s of (Memories, w) \<Rightarrow>
        (case getEmbedding env description w of
           (Err err, w1) \<Rightarrow> (Err (Errorf ''failed to get embedding: '' err), Memories, w1)
         | (Panic, w1) \<Rightarrow> (Panic, Memories, w1)
         | (Ok embed', w1) \<Rightarrow>
             (case rateImportance env description w1 of
                (Err err, w2) \<Rightarrow> (Err (Errorf ''failed to rate importance: '' err), Memories, w2)
              | (Panic, w2) \<Rightarrow> (Panic, Memories, w2)
              | (Ok importance, w2) \<Rightarrow>
                  (case Now env w2 of (created, w3) \<Rightarrow>
                     (case Now env w3 of (accessed, w4) \<Rightarrow>
                        (Ok (),
                         Memories @
                           [\<lparr>Description = description, CreationTime = created,
                             LastAccessedTime = accessed, Importance = importance,
                             Embedding = embed'\<rparr>],
                         w4))))))"

section \<open>memory/retrieve.go: retrieval\<close>

text \<open>
  \<open>cosineSimilarity\<close>: the loop runs over the indices of \<open>a\<close> and reads \<open>b[i]\<close>, which
  panics when \<open>b\<close> is the shorter one (the result is then \<open>None\<close>).
\<close>

fun cosineSimilarity_loop ::
  "real list \<Rightarrow> real list \<Rightarrow> real \<times> real \<times> real \<Rightarrow> (real \<times> real \<times> real) option" where
  "cosineSimilarity_loop [] b acc = Some acc"
| "cosineSimilarity_loop (x # a) [] acc = None"
| "cosineSimilarity_loop (x # a) (y # b) (dotProduct, normA, normB) =
     cosineSimilarity_loop a b (dotProduct + x * y, normA + x * x, normB + y * y)"

definition cosineSimilarity :: "real list \<Rightarrow> real list \<Rightarrow> real option" where
  "cosineSimilarity a b =
     (case cosineSimilarity_loop a b (0, 0, 0) of
        None \<Rightarrow> None
      | Some (dotProduct, normA, normB) \<Rightarrow>
          if normA = 0 \<or> normB = 0 then Some 0
          else Some (dotProduct / (sqrt normA * sqrt normB)))"

text \<open>
  The loop of \<open>RetrieveMemories\<close> over \<open>ms.Memories\<close>: it returns what it appended to
  \<open>retrieved\<close> and the memories as it leaves them. An error or a panic ends it where it
  stands, with the memories before that one already touched.
\<close>

fun RetrieveMemories_loop ::
  "'w env \<Rightarrow> real list \<Rightarrow> MemoryObject list \<Rightarrow> 'w
     \<Rightarrow> RetrievedMemory list result \<times> MemoryObject list \<times> 'w" where
  "RetrieveMemories_loop env queryEmbedding [] w = (Ok [], [], w)"
| "RetrieveMemories_loop env queryEmbedding (memory # rest) w =
     (case getEmbedding env (Description memory) w of
        (Err err, w1) \<Rightarrow> (Err err, memory # rest, w1)
      | (Panic, w1) \<Rightarrow> (Panic, memory # rest, w1)
      | (Ok memoryEmbedding, w1) \<Rightarrow>
          (case cosineSimilarity queryEmbedding memoryEmbedding of
             None \<Rightarrow> (Panic, memory # rest, w1)
           | Some relevance \<Rightarrow>
               (case Now env w1 of (now, w2) \<Rightarrow>
                  let hoursSinceAccess = Hours (Sub now (LastAccessedTime memory));
                      recencyScore = exp (- hoursSinceAccess / 24);
                      importanceScore = Importance memory / 10;
                      totalScore = relevance + recencyScore + importanceScore
                  in (case Now env w2 of (accessed, w3) \<Rightarrow>
                        (case RetrieveMemories_loop env queryEmbedding rest w3 of
                           (r, rest', w4) \<Rightarrow>
                             ((case r of
                                 Ok retrieved \<Rightarrow>
                                   Ok (\<lparr>Memory = memory, Score = totalScore\<rparr> # retrieved)
                               | Err err \<Rightarrow> Err err
                               | Panic \<Rightarrow> Panic),
                              memory\<lparr>LastAccessedTime := accessed\<rparr> # rest', w4))))))"

definition RetrieveMemories ::
  "'w env \<Rightarrow> string \<Rightarrow> MemoryObject list \<times> 'w
     \<Rightarrow> RetrievedMemory list result \<times> MemoryObject list \<times> 'w" where
  "RetrieveMemories env query s =
     (case s of (Memories, w) \<Rightarrow>
        (case getEmbedding env query w of
           (Err err, w1) \<Rightarrow> (Err err, Memories, w1)
         | (Panic, w1) \<Rightarrow> (Panic, Memories, w1)
         | (Ok queryEmbedding, w1) \<Rightarrow>
             (case RetrieveMemories_loop env queryEmbedding Memories w1 of
                (Err err, Memories', w2) \<Rightarrow> (Err err, Memories', w2)
              | (Panic, Memories', w2) \<Rightarrow> (Panic, Memories', w2)
              | (Ok retrieved, Memories', w2) \<Rightarrow>
                  (Ok (sort_Slice env retrieved (\<lambda>x y. Score x > Score y)), Memories', w2))))"

section \<open>reflect/reflection.go: reflection\<close>

definition generateReflectionQuestions_sysPrompt :: string where
  "generateReflectionQuestions_sysPrompt = ''Given only the information provided below, what are 3 most salient high-level questions we can answer about the subjects in the statements?''"

definition generateReflectionQuestions ::
  "'w env \<Rightarrow> string list \<Rightarrow> 'w \<Rightarrow> string list result \<times> 'w" where
  "generateReflectionQuestions env memories w =
     (let usrPrompt = Join memories [CHR 0x0A] in
      case CreateChatCompletion env
             \<lparr>Model = GPT4oMini,
              Messages = [\<lparr>Role = ''system'', Content = generateReflectionQuestions_sysPrompt\<rparr>,
                          \<lparr>Role = ''user'', Content = usrPrompt\<rparr>],
              Temperature = 1\<rparr> w of
        (Inl err, w') \<Rightarrow> (Err err, w')
      | (Inr choices, w') \<Rightarrow>
          (case choices of
             [] \<Rightarrow> (Panic, w')
           | output # _ \<Rightarrow> (Ok (parseQuestions output), w')))"

text \<open>\<open>fmt.Sprintf("%d", n)\<close> for a number that is not negative.\<close>

fun Itoa :: "nat \<Rightarrow> string" where
  "Itoa n = (if n < 10 then [char_of (48 + n)] else Itoa (n div 10) @ [char_of (48 + n mod 10)])"

declare Itoa.simps [simp del]

definition generateInsights_sysPrompt :: string where
  "generateInsights_sysPrompt = ''What 5 high-level insights can you infer from the given statements? (example format: Insight (because of statements 1, 2, 3))''"

definition generateInsights ::
  "'w env \<Rightarrow> string \<Rightarrow> RetrievedMemory list \<Rightarrow> 'w \<Rightarrow> string list result \<times> 'w" where
  "generateInsights env question memories w =
     (let memoryTexts =
            map (\<lambda>(idx, mem). Itoa (idx + 1) @ ''. '' @ Description (Memory mem))
              (enumerate 0 memories);
          usrPrompt = ''Statements about the question '' @ [CHR 0x22] @ question @ [CHR 0x22]
                        @ '':'' @ [CHR 0x0A] @ Join memoryTexts [CHR 0x0A]
      in
      case CreateChatCompletion env
             \<lparr>Model = GPT4oMini,
              Messages = [\<lparr>Role = ''system'', Content = generateInsights_sysPrompt\<rparr>,
                          \<lparr>Role = ''user'', Content = usrPrompt\<rparr>],
              Temperature = 1\<rparr> w of
        (Inl err, w') \<Rightarrow> (Err err, w')
      | (Inr choices, w') \<Rightarrow>
          (case choices of
             [] \<Rightarrow> (Panic, w')
           | output # _ \<Rightarrow> (Ok (parseInsights output), w')))"

text \<open>
  The inner loop of \<open>Reflect\<close>: \<open>ms.AddMemory(insight)\<close> for each insight. The error
  \<open>AddMemory\<close> returns is dropped; only a panic ends the loop.
\<close>

fun Reflect_insights ::
  "'w env \<Rightarrow> string list \<Rightarrow> MemoryObject list \<times> 'w \<Rightarrow> unit result \<times> MemoryObject list \<times> 'w" where
  "Reflect_insights env [] s = (Ok (), s)"
| "Reflect_insights env (insight # insights) s =
     (case AddMemory env insight s of
        (Panic, s') \<Rightarrow> (Panic, s')
      | (_, s') \<Rightarrow> Reflect_insights env insights s')"

text \<open>The outer loop of \<open>Reflect\<close>, over the questions.\<close>

fun Reflect_questions ::
  "'w env \<Rightarrow> string list \<Rightarrow> MemoryObject list \<times> 'w \<Rightarrow> unit result \<times> MemoryObject list \<times> 'w" where
  "Reflect_questions env [] s = (Ok (), s)"
| "Reflect_questions env (question # questions) s =
     (case RetrieveMemories env question s of
        (Err err, s1) \<Rightarrow> (Err err, s1)
      | (Panic, s1) \<Rightarrow> (Panic, s1)
      | (Ok retrievedMemories, Memories1, w1) \<Rightarrow>
          (case generateInsights env question retrievedMemories w1 of
             (Err err, w2) \<Rightarrow> (Err err, Memories1, w2)
           | (Panic, w2) \<Rightarrow> (Panic, Memories1, w2)
           | (Ok insights, w2) \<Rightarrow>
               (case Reflect_insights env insights (Memories1, w2) of
                  (Panic, s3) \<Rightarrow> (Panic, s3)
                | (_, s3) \<Rightarrow> Reflect_questions env questions s3)))"

definition Reflect ::
  "'w env \<Rightarrow> MemoryObject list \<Rightarrow> MemoryObject list \<times> 'w
     \<Rightarrow> unit result \<times> MemoryObject list \<times> 'w" where
  "Reflect env memories s =
     (case s of (Memories, w) \<Rightarrow>
        (let memoryTexts = map Description memories in
         case generateReflectionQuestions env memoryTexts w of
           (Err err, w1) \<Rightarrow> (Err err, Memories, w1)
         | (Panic, w1) \<Rightarrow> (Panic, Memories, w1)
         | (Ok questions, w1) \<Rightarrow> Reflect_questions env questions (Memories, w1)))"

section \<open>Stubs of the outside world, for concrete runs\<close>

text \<open>
  On a short slice \<open>sort.Slice\<close> is an insertion sort: each element moves left past
  the elements it is \<open>less\<close> than.
\<close>

fun insertionSort_insert :: "('a \<Rightarrow> 'a \<Rightarrow> bool) \<Rightarrow> 'a \<Rightarrow> 'a list \<Rightarrow> 'a list" where
  "insertionSort_insert lessf x [] = [x]"
| "insertionSort_insert lessf x (y # ys) =
     (if lessf x (last (y # ys))
      then insertionSort_insert lessf x (butlast (y # ys)) @ [last (y # ys)]
      else (y # ys) @ [x])"

definition insertionSort :: "'a list \<Rightarrow> ('a \<Rightarrow> 'a \<Rightarrow> bool) \<Rightarrow> 'a list" where
  "insertionSort data lessf = foldl (\<lambda>acc x. insertionSort_insert lessf x acc) [] data"

text \<open>A parser for the stubs: a string of decimal digits is the number it writes.\<close>

definition ParseFloat_digits :: "string \<Rightarrow> nat \<Rightarrow> error + real" where
  "ParseFloat_digits s bitSize =
     (if s \<noteq> [] \<and> list_all (\<lambda>c. 48 \<le> (of_char c :: nat) \<and> (of_char c :: nat) \<le> 57) s
      then Inr (real (foldl (\<lambda>n c. 10 * n + (of_char c - 48)) 0 s))
      else Inl (Error ''invalid syntax''))"

text \<open>
  A stub client and clock. Its state counts the calls made so far and keeps the user
  prompts of the chat completions asked for. \<open>chat\<close> answers from the system prompt,
  the user prompt and the count, \<open>embedding\<close> from the text and the count, and \<open>clock\<close>
  reads from the count.
\<close>

definition stub ::
  "(string \<Rightarrow> string \<Rightarrow> nat \<Rightarrow> error + string list) \<Rightarrow>
   (string \<Rightarrow> nat \<Rightarrow> error + real list list) \<Rightarrow> (nat \<Rightarrow> Time) \<Rightarrow>
   (RetrievedMemory list \<Rightarrow> (RetrievedMemory \<Rightarrow> RetrievedMemory \<Rightarrow> bool) \<Rightarrow> RetrievedMemory list)
   \<Rightarrow> (nat \<times> string list) env" where
  "stub chat embedding clock sorter =
     \<lparr>CreateChatCompletion =
        (\<lambda>req (n, prompts).
           (chat (Content (Messages req ! 0)) (Content (Messages req ! 1)) n,
            (Suc n, prompts @ [Content (Messages req ! 1)]))),
      CreateEmbeddings = (\<lambda>req (n, prompts). (embedding (Input req ! 0) n, (Suc n, prompts))),
      Now = (\<lambda>(n, prompts). (clock n, (Suc n, prompts))),
      ParseFloat = ParseFloat_digits,
      sort_Slice = sorter\<rparr>"

text \<open>
  Stub worlds. In each the clock reads the number of calls made so far. In the first
  every completion answers \<open>8\<close> and every text embeds as \<open>[1, 0]\<close>; in the others the
  embedding call fails, the completion call fails, or the completion answers with a word
  that is no number.
\<close>

definition env_ticking :: "(nat \<times> string list) env" where
  "env_ticking = stub (\<lambda>sys usr n. Inr [''8'']) (\<lambda>text n. Inr [[1, 0]]) int insertionSort"


definition env_no_completion :: "(nat \<times> string list) env" where
  "env_no_completion =
     stub (\<lambda>sys usr n. Inl (Error ''no completion'')) (\<lambda>text n. Inr [[1, 0]]) int insertionSort"


definition breakfast :: MemoryObject where
  "breakfast =
     \<lparr>Description = ''had breakfast'', CreationTime = 0, LastAccessedTime = 0,
      Importance = 5, Embedding = [1, 0]\<rparr>"

text \<open>
  A world for the scoring scenario: the clock reads whole hours, the query embeds as
  \<open>[1, 0, 0, 0]\<close> and every other text as \<open>[1, 1, 1, 1]\<close>, so that the cosine is one
  half. And a world whose embeddings drift: the first embedding call answers \<open>[1, 0]\<close>,
  later calls answer \<open>[0, 1]\<close> (but \<open>[1, 0]\<close> for the query), and the clock stands still.
\<close>

definition lecture :: MemoryObject where
  "lecture =
     \<lparr>Description = ''attended a lecture'', CreationTime = 0, LastAccessedTime = 0,
      Importance = 8, Embedding = [1, 1, 1, 1]\<rparr>"

definition env_scenario :: "(nat \<times> string list) env" where
  "env_scenario =
     stub (\<lambda>sys usr n. Inr [''8''])
       (\<lambda>text n. if text = ''q'' then Inr [[1, 0, 0, 0]] else Inr [[1, 1, 1, 1]])
       (\<lambda>n. int n * Hour) insertionSort"

definition drifted_note :: MemoryObject where
  "drifted_note =
     \<lparr>Description = ''x'', CreationTime = 0, LastAccessedTime = 0,
      Importance = 8, Embedding = [1, 0]\<rparr>"

definition env_drifting :: "(nat \<times> string list) env" where
  "env_drifting =
     stub (\<lambda>sys usr n. Inr [''8''])
       (\<lambda>text n. if text = ''q'' \<or> n = 0 then Inr [[1, 0]] else Inr [[0, 1]])
       (\<lambda>n. 0) insertionSort"




text \<open>
  Worlds whose clock stands still, so that every recency term is \<open>exp 0\<close>: one sorting
  with the insertion sort, one with the reversing sort. And a world where the embedding
  of one description fails.
\<close>

definition lunch :: MemoryObject where
  "lunch =
     \<lparr>Description = ''had lunch'', CreationTime = 0, LastAccessedTime = 0,
      Importance = 5, Embedding = [1, 0]\<rparr>"



definition env_lunch_fails :: "(nat \<times> string list) env" where
  "env_lunch_fails =
     stub (\<lambda>sys usr n. Inr [''8''])
       (\<lambda>text n. if text = ''had lunch'' then Inl (Error ''no embedding'') else Inr [[1, 0]])
       int insertionSort"

text \<open>
  A record without its access time: two records with the same \<open>core\<close> differ at most
  in \<open>LastAccessedTime\<close>.
\<close>

definition core :: "MemoryObject \<Rightarrow> MemoryObject" where
  "core m = m\<lparr>LastAccessedTime := 0\<rparr>"

text \<open>
  Stub worlds for reflection. The chat stub answers a rating request with \<open>8\<close>, the
  request for questions with \<open>questions\<close> and a request for insights with \<open>insights\<close>;
  when \<open>failing\<close>, the request for the insights of question \<open>Q2\<close> fails. In
  \<open>env_unembeddable\<close> the text \<open>A\<close> cannot be embedded, in \<open>env_retrieval_fails\<close> the
  question \<open>Q2\<close> cannot, and in \<open>env_silent\<close> every completion is the empty text. The
  clock stands still.
\<close>

definition chat_reflection ::
  "string \<Rightarrow> string \<Rightarrow> bool \<Rightarrow> string \<Rightarrow> string \<Rightarrow> nat \<Rightarrow> error + string list" where
  "chat_reflection questions insights failing sys usr n =
     (if sys = rateImportance_sysPrompt then Inr [''8'']
      else if sys = generateReflectionQuestions_sysPrompt then Inr [questions]
      else if failing \<and> prefix (''Statements about the question '' @ [CHR 0x22] @ ''Q2'') usr
      then Inl (Error ''no completion'')
      else Inr [insights])"

definition two_questions :: string where
  "two_questions = ''1. Q1'' @ [CHR 0x0A] @ ''2. Q2''"

definition three_questions :: string where
  "three_questions = ''1. Q1'' @ [CHR 0x0A] @ ''2. Q2'' @ [CHR 0x0A] @ ''3. Q3''"

definition one_insight :: string where
  "one_insight = ''1. A (because of statements 1)''"

definition two_insights :: string where
  "two_insights = ''1. A (because of statements 1)'' @ [CHR 0x0A] @ ''2. B (because of statements 1)''"

definition env_unembeddable :: "(nat \<times> string list) env" where
  "env_unembeddable =
     stub (chat_reflection ''1. Q1'' two_insights False)
       (\<lambda>text n. if text = ''A'' then Inl (Error ''no embedding'') else Inr [[1, 0]])
       (\<lambda>n. 0) insertionSort"

definition env_second_fails :: "(nat \<times> string list) env" where
  "env_second_fails =
     stub (chat_reflection three_questions one_insight True) (\<lambda>text n. Inr [[1, 0]])
       (\<lambda>n. 0) insertionSort"

definition env_retrieval_fails :: "(nat \<times> string list) env" where
  "env_retrieval_fails =
     stub (chat_reflection three_questions one_insight False)
       (\<lambda>text n. if text = ''Q2'' then Inl (Error ''no embedding'') else Inr [[1, 0]])
       (\<lambda>n. 0) insertionSort"

definition env_two_questions :: "(nat \<times> string list) env" where
  "env_two_questions =
     stub (chat_reflection two_questions one_insight False) (\<lambda>text n. Inr [[1, 0]])
       (\<lambda>n. 0) insertionSort"

definition env_silent :: "(nat \<times> string list) env" where
  "env_silent = stub (\<lambda>sys usr n. Inr ['''']) (\<lambda>text n. Inr [[1, 0]]) (\<lambda>n. 0) insertionSort"

definition insight_A :: MemoryObject where
  "insight_A =
     \<lparr>Description = ''A'', CreationTime = 0, LastAccessedTime = 0, Importance = 8,
      Embedding = [1, 0]\<rparr>"

definition insight_B :: MemoryObject where
  "insight_B =
     \<lparr>Description = ''B'', CreationTime = 0, LastAccessedTime = 0, Importance = 8,
      Embedding = [1, 0]\<rparr>"

definition prompt_Q1 :: string where
  "prompt_Q1 = ''Statements about the question '' @ [CHR 0x22] @ ''Q1'' @ [CHR 0x22] @ '':'' @
     [CHR 0x0A] @ ''1. had breakfast''"

definition prompt_Q2 :: string where
  "prompt_Q2 = ''Statements about the question '' @ [CHR 0x22] @ ''Q2'' @ [CHR 0x22] @ '':'' @
     [CHR 0x0A] @ ''1. A'' @ [CHR 0x0A] @ ''2. had breakfast''"

section \<open>Properties\<close>

subsection \<open>The parsers\<close>





subsection \<open>Adding a memory\<close>

lemma TrimSpace_8: "TrimSpace ''8'' = ''8''"
  by code_simp




text \<open>
  Claim C7, as the code has it. A successful \<open>AddMemory\<close> appends one record; its
  \<open>CreationTime\<close> and its \<open>LastAccessedTime\<close> are two readings of the clock, taken one
  after the other, the creation time first. They are equal when the clock gives the same
  reading twice.
\<close>

theorem AddMemory_times:
  assumes "AddMemory env description (Memories, w) = (Ok (), Memories', w')"
  shows "\<exists>embedding w1 importance w2 created w3 accessed.
           getEmbedding env description w = (Ok embedding, w1) \<and>
           rateImportance env description w1 = (Ok importance, w2) \<and>
           Now env w2 = (created, w3) \<and> Now env w3 = (accessed, w') \<and>
           Memories' = Memories @
             [\<lparr>Description = description, CreationTime = created, LastAccessedTime = accessed,
               Importance = importance, Embedding = embedding\<rparr>]"
  using assms by (auto simp: AddMemory_def split: prod.splits result.splits)

lemma AddMemory_env_ticking:
  "AddMemory env_ticking ''x'' ([], (0, [])) =
     (Ok (),
      [\<lparr>Description = ''x'', CreationTime = 2, LastAccessedTime = 3, Importance = 8,
        Embedding = [1, 0]\<rparr>],
      (4, [''x'']))"
  by (simp add: AddMemory_def getEmbedding_def rateImportance_def parseImportanceRating_def
      env_ticking_def stub_def TrimSpace_8 ParseFloat_digits_def)

theorem AddMemory_times_witness:
  "AddMemory env_ticking ''x'' ([], (0, [])) =
     (Ok (),
      [\<lparr>Description = ''x'', CreationTime = 2, LastAccessedTime = 3, Importance = 8,
        Embedding = [1, 0]\<rparr>],
      (4, [''x''])) \<and>
   Now env_ticking (2, [''x'']) = (2, (3, [''x''])) \<and>
   Now env_ticking (3, [''x'']) = (3, (4, [''x'']))"
proof -
  have n: "Now env_ticking (2, [''x'']) = (2, (3, [''x''])) \<and>
           Now env_ticking (3, [''x'']) = (3, (4, [''x'']))"
    by (simp add: env_ticking_def stub_def)
  from AddMemory_times [OF AddMemory_env_ticking] AddMemory_env_ticking n show ?thesis
    by simp
qed

text \<open>
  Claim C7 as the specification states it fails: with a clock that moves between the two
  readings, the new record's \<open>LastAccessedTime\<close> is later than its \<open>CreationTime\<close>.
\<close>

theorem AddMemory_times_counterexample:
  "fst (AddMemory env_ticking ''x'' ([], (0, []))) = Ok () \<and>
   LastAccessedTime (last (fst (snd (AddMemory env_ticking ''x'' ([], (0, []))))))
     \<noteq> CreationTime (last (fst (snd (AddMemory env_ticking ''x'' ([], (0, []))))))"
  by (simp add: AddMemory_env_ticking)

subsection \<open>Cosine similarity\<close>

lemma cosineSimilarity_loop_sums:
  "length a = length b \<Longrightarrow>
   cosineSimilarity_loop a b (d, na, nb) =
     Some (d + (\<Sum>(x, y)\<leftarrow>zip a b. x * y), na + (\<Sum>x\<leftarrow>a. x * x), nb + (\<Sum>y\<leftarrow>b. y * y))"
  by (induction a b arbitrary: d na nb rule: list_induct2) (simp_all add: algebra_simps)

lemma dot_commute:
  "length a = length b \<Longrightarrow>
   (\<Sum>(x, y)\<leftarrow>zip a b. x * y) = (\<Sum>(x, y)\<leftarrow>zip b a. x * (y::real))"
  by (induction a b rule: list_induct2) (simp_all add: mult.commute)

lemma dot_self: "(\<Sum>(x, y)\<leftarrow>zip v v. x * y) = (\<Sum>x\<leftarrow>v. x * (x::real))"
  by (induction v) simp_all

lemma sum_squares_nonneg: "0 \<le> (\<Sum>x\<leftarrow>v. x * (x::real))"
  by (induction v) simp_all

lemma sum_squares_zero_iff: "(\<Sum>x\<leftarrow>v. x * (x::real)) = 0 \<longleftrightarrow> (\<forall>x\<in>set v. x = 0)"
proof (induction v)
  case Nil
  show ?case by simp
next
  case (Cons x v)
  have "0 \<le> x * x" by simp
  with sum_squares_nonneg [of v] have "x * x + (\<Sum>x\<leftarrow>v. x * x) = 0 \<longleftrightarrow> x * x = 0 \<and> (\<Sum>x\<leftarrow>v. x * x) = 0"
    by (simp add: add_nonneg_eq_0_iff)
  with Cons show ?case by simp
qed

text \<open>
  In exact arithmetic: for a vector \<open>v\<close> with a component that is not zero,
  \<open>cosineSimilarity v v\<close> is 1; for vectors of the same dimension \<open>cosineSimilarity\<close>
  is symmetric, and it is 0 when one of them has magnitude zero. (The source computes
  in \<open>float32\<close>: there a squared norm can underflow to zero or overflow, which real
  numbers do not show.)
\<close>

theorem cosineSimilarity_properties:
  "((\<exists>x\<in>set v. x \<noteq> 0) \<longrightarrow> cosineSimilarity v v = Some 1) \<and>
   (length a = length b \<longrightarrow> cosineSimilarity a b = cosineSimilarity b a) \<and>
   (length a = length b \<longrightarrow>
      sqrt (\<Sum>x\<leftarrow>a. x * x) = 0 \<or> sqrt (\<Sum>y\<leftarrow>b. y * y) = 0 \<longrightarrow> cosineSimilarity a b = Some 0)"
proof (intro conjI impI)
  assume nz: "\<exists>x\<in>set v. x \<noteq> 0"
  define n where "n = (\<Sum>x\<leftarrow>v. x * x)"
  have "n \<noteq> 0" using nz by (auto simp: n_def sum_squares_zero_iff)
  moreover have "0 \<le> n" by (simp add: n_def sum_squares_nonneg)
  ultimately have "n / (sqrt n * sqrt n) = 1" by simp
  moreover have "cosineSimilarity_loop v v (0, 0, 0) = Some (n, n, n)"
    by (simp add: cosineSimilarity_loop_sums dot_self n_def)
  ultimately show "cosineSimilarity v v = Some 1"
    using \<open>n \<noteq> 0\<close> by (simp add: cosineSimilarity_def)
next
  assume len: "length a = length b"
  then have "cosineSimilarity_loop b a (0, 0, 0) =
      Some ((\<Sum>(x, y)\<leftarrow>zip a b. x * y), (\<Sum>y\<leftarrow>b. y * y), (\<Sum>x\<leftarrow>a. x * x))"
    by (simp add: cosineSimilarity_loop_sums dot_commute)
  with len show "cosineSimilarity a b = cosineSimilarity b a"
    by (auto simp: cosineSimilarity_def cosineSimilarity_loop_sums mult.commute)
next
  assume len: "length a = length b"
    and z: "sqrt (\<Sum>x\<leftarrow>a. x * x) = 0 \<or> sqrt (\<Sum>y\<leftarrow>b. y * y) = 0"
  then show "cosineSimilarity a b = Some 0"
    by (auto simp: cosineSimilarity_def cosineSimilarity_loop_sums)
qed

theorem cosineSimilarity_properties_witness:
  "cosineSimilarity [3, 4] [3, 4] = Some 1 \<and>
   cosineSimilarity [1, 0] [1, 1] = cosineSimilarity [1, 1] [1, 0] \<and>
   cosineSimilarity [0, 0] [3, 4] = Some 0"
proof -
  have a: "\<exists>x\<in>set [3, 4::real]. x \<noteq> 0" by simp
  have l1: "length [1, 0::real] = length [1, 1::real]" by simp
  have l2: "length [0, 0::real] = length [3, 4::real]" by simp
  have z: "sqrt (\<Sum>x\<leftarrow>[0, 0::real]. x * x) = 0 \<or> sqrt (\<Sum>y\<leftarrow>[3, 4::real]. y * y) = 0" by simp
  from cosineSimilarity_properties [of "[3, 4]" "[1, 0]" "[1, 1]"]
       cosineSimilarity_properties [of "[3, 4]" "[0, 0]" "[3, 4]"] a l1 l2 z
  show ?thesis by blast
qed

subsection \<open>Retrieval\<close>

lemma RetrieveMemories_loop_frame:
  "RetrieveMemories_loop env qe ms w = (r, ms', w') \<Longrightarrow>
   map (\<lambda>m. m\<lparr>LastAccessedTime := 0\<rparr>) ms' = map (\<lambda>m. m\<lparr>LastAccessedTime := 0\<rparr>) ms"
proof (induction ms arbitrary: w r ms' w')
  case Nil
  then show ?case by simp
next
  case (Cons m rest)
  show ?case
    using Cons.prems Cons.IH
    by (auto simp: Let_def split: prod.splits result.splits option.splits)
qed

lemma RetrieveMemories_loop_Ok_Cons:
  assumes "RetrieveMemories_loop env qe (m # post) w = (Ok rs, ms', w')"
  shows "\<exists>e w2 c now w3 accessed w4 rs2 ms2.
      getEmbedding env (Description m) w = (Ok e, w2) \<and> cosineSimilarity qe e = Some c \<and>
      Now env w2 = (now, w3) \<and> Now env w3 = (accessed, w4) \<and>
      RetrieveMemories_loop env qe post w4 = (Ok rs2, ms2, w') \<and>
      rs = \<lparr>Memory = m,
             Score = c + exp (- Hours (Sub now (LastAccessedTime m)) / 24) + Importance m / 10\<rparr> # rs2 \<and>
      ms' = m\<lparr>LastAccessedTime := accessed\<rparr> # ms2"
  using assms by (auto simp: Let_def split: prod.splits result.splits option.splits)

lemma RetrieveMemories_loop_split:
  assumes "RetrieveMemories_loop env qe (pre @ m # post) w = (Ok rs, ms', w')"
  shows "\<exists>rs1 ms1 w1 e w2 c now w3 accessed w4 rs2 ms2.
      RetrieveMemories_loop env qe pre w = (Ok rs1, ms1, w1) \<and>
      length rs1 = length pre \<and> length ms1 = length pre \<and>
      getEmbedding env (Description m) w1 = (Ok e, w2) \<and> cosineSimilarity qe e = Some c \<and>
      Now env w2 = (now, w3) \<and> Now env w3 = (accessed, w4) \<and>
      RetrieveMemories_loop env qe post w4 = (Ok rs2, ms2, w') \<and>
      rs = rs1 @ \<lparr>Memory = m,
             Score = c + exp (- Hours (Sub now (LastAccessedTime m)) / 24) + Importance m / 10\<rparr> # rs2 \<and>
      ms' = ms1 @ m\<lparr>LastAccessedTime := accessed\<rparr> # ms2"
  using assms
proof (induction pre arbitrary: w rs ms')
  case Nil
  from RetrieveMemories_loop_Ok_Cons [of env qe m post w rs ms' w'] Nil show ?case
    by simp
next
  case (Cons p pre)
  from Cons.prems have "RetrieveMemories_loop env qe (p # (pre @ m # post)) w = (Ok rs, ms', w')"
    by simp
  from RetrieveMemories_loop_Ok_Cons [OF this]
  obtain e w2 c now w3 accessed w4 rs2 ms2 where
    p: "getEmbedding env (Description p) w = (Ok e, w2)" "cosineSimilarity qe e = Some c"
      "Now env w2 = (now, w3)" "Now env w3 = (accessed, w4)"
      and rest: "RetrieveMemories_loop env qe (pre @ m # post) w4 = (Ok rs2, ms2, w')"
      and rs: "rs = \<lparr>Memory = p,
             Score = c + exp (- Hours (Sub now (LastAccessedTime p)) / 24) + Importance p / 10\<rparr> # rs2"
      and ms: "ms' = p\<lparr>LastAccessedTime := accessed\<rparr> # ms2"
    by blast
  from Cons.IH [OF rest] obtain rs1 ms1 w1 e' w2' c' now' w3' accessed' w4' rs2' ms2' where
    ih: "RetrieveMemories_loop env qe pre w4 = (Ok rs1, ms1, w1)"
      "length rs1 = length pre" "length ms1 = length pre"
      "getEmbedding env (Description m) w1 = (Ok e', w2')" "cosineSimilarity qe e' = Some c'"
      "Now env w2' = (now', w3')" "Now env w3' = (accessed', w4')"
      "RetrieveMemories_loop env qe post w4' = (Ok rs2', ms2', w')"
      "rs2 = rs1 @ \<lparr>Memory = m,
             Score = c' + exp (- Hours (Sub now' (LastAccessedTime m)) / 24) + Importance m / 10\<rparr> # rs2'"
      "ms2 = ms1 @ m\<lparr>LastAccessedTime := accessed'\<rparr> # ms2'"
    by blast
  have "RetrieveMemories_loop env qe (p # pre) w =
      (Ok (\<lparr>Memory = p,
             Score = c + exp (- Hours (Sub now (LastAccessedTime p)) / 24) + Importance p / 10\<rparr> # rs1),
       p\<lparr>LastAccessedTime := accessed\<rparr> # ms1, w1)"
    using p ih(1) by (simp add: Let_def)
  with ih rs ms show ?case
    by simp
qed

lemma Hours_eq: "Hours d = real_of_int d / 3600000000000"
proof -
  have "real_of_int d = real_of_int (d sdiv Hour * Hour + d smod Hour)"
    by (simp only: sdiv_mult_smod_eq)
  then have "real_of_int d = real_of_int (d sdiv Hour) * 3600000000000 + real_of_int (d smod Hour)"
    by (simp add: Hour_def)
  then show ?thesis
    by (simp add: Hours_def field_simps)
qed

lemma exp_twelfth_bounds: "11 / 12 \<le> exp (- (1 / 12) :: real) \<and> exp (- (1 / 12) :: real) \<le> 12 / 13"
proof
  have "1 + (- (1 / 12)) \<le> exp (- (1 / 12) :: real)"
    by (rule exp_ge_add_one_self)
  then show "11 / 12 \<le> exp (- (1 / 12) :: real)" by simp
next
  have "1 + 1 / 12 \<le> exp (1 / 12 :: real)"
    by (rule exp_ge_add_one_self)
  then have "inverse (exp (1 / 12 :: real)) \<le> inverse (1 + 1 / 12)"
    by (intro le_imp_inverse_le) simp_all
  then show "exp (- (1 / 12) :: real) \<le> 12 / 13"
    by (simp add: exp_minus)
qed

lemma scenario_bound:
  fixes E :: real
  assumes "11 / 12 \<le> E" and "E \<le> 12 / 13"
  shows "\<bar>1 / 2 + E + 8 / 10 - 2.220\<bar> \<le> 0.01"
proof -
  have "- 0.01 \<le> 1 / 2 + E + 8 / 10 - 2.220" using assms(1) by simp
  moreover have "1 / 2 + E + 8 / 10 - 2.220 \<le> 0.01" using assms(2) by simp
  ultimately show ?thesis by linarith
qed

lemma scenario_score: "\<bar>1 / 2 + exp (- 2 / 24) + 8 / 10 - 2.220\<bar> \<le> (0.01 :: real)"
proof -
  have e: "exp (- 2 / 24 :: real) = exp (- (1 / 12))" by simp
  from exp_twelfth_bounds show ?thesis
    unfolding e by (intro scenario_bound) simp_all
qed

text \<open>
  Claim C1, as the code has it. For every record \<open>m\<close> of the store (the store is
  \<open>pre @ m # post\<close>), a successful \<open>RetrieveMemories\<close> pairs \<open>m\<close> with the score
  \<open>relevance + exp (- hours / 24) + Importance m / 10\<close>, where \<open>relevance\<close> is the cosine
  of the query's embedding and the embedding the client returns for \<open>m\<close>'s description
  during this call (not the one stored in \<open>m\<close>), and \<open>hours\<close> is the time from \<open>m\<close>'s
  last access to a reading of the clock taken when \<open>m\<close> is scored. With a cosine of one
  half, two hours and importance 8 the score is 2.220 up to 0.01.
\<close>

theorem RetrieveMemories_score:
  assumes "RetrieveMemories env query (pre @ m # post, w) = (Ok out, Memories', w')"
  shows "\<exists>queryEmbedding w0 retrieved rs1 ms1 w1 memoryEmbedding w2 relevance now w3.
     getEmbedding env query w = (Ok queryEmbedding, w0) \<and>
     RetrieveMemories_loop env queryEmbedding (pre @ m # post) w0 = (Ok retrieved, Memories', w') \<and>
     out = sort_Slice env retrieved (\<lambda>x y. Score x > Score y) \<and>
     RetrieveMemories_loop env queryEmbedding pre w0 = (Ok rs1, ms1, w1) \<and>
     getEmbedding env (Description m) w1 = (Ok memoryEmbedding, w2) \<and>
     cosineSimilarity queryEmbedding memoryEmbedding = Some relevance \<and>
     Now env w2 = (now, w3) \<and>
     retrieved ! length pre =
       \<lparr>Memory = m,
        Score = relevance + exp (- Hours (Sub now (LastAccessedTime m)) / 24) + Importance m / 10\<rparr> \<and>
     (relevance = 1 / 2 \<and> Hours (Sub now (LastAccessedTime m)) = 2 \<and> Importance m = 8
        \<longrightarrow> \<bar>Score (retrieved ! length pre) - 2.220\<bar> \<le> 0.01)"
proof -
  from assms obtain queryEmbedding w0 retrieved where
    q: "getEmbedding env query w = (Ok queryEmbedding, w0)"
    and l: "RetrieveMemories_loop env queryEmbedding (pre @ m # post) w0 = (Ok retrieved, Memories', w')"
    and o: "out = sort_Slice env retrieved (\<lambda>x y. Score x > Score y)"
    by (auto simp: RetrieveMemories_def split: prod.splits result.splits)
  from RetrieveMemories_loop_split [OF l]
  obtain rs1 ms1 w1 e w2 c now w3 accessed w4 rs2 ms2 where
    s: "RetrieveMemories_loop env queryEmbedding pre w0 = (Ok rs1, ms1, w1)"
      "length rs1 = length pre"
      "getEmbedding env (Description m) w1 = (Ok e, w2)" "cosineSimilarity queryEmbedding e = Some c"
      "Now env w2 = (now, w3)"
      "retrieved = rs1 @ \<lparr>Memory = m,
             Score = c + exp (- Hours (Sub now (LastAccessedTime m)) / 24) + Importance m / 10\<rparr> # rs2"
    by blast
  from s(2,6) have n: "retrieved ! length pre = \<lparr>Memory = m,
             Score = c + exp (- Hours (Sub now (LastAccessedTime m)) / 24) + Importance m / 10\<rparr>"
    by (simp add: nth_append)
  have b: "c = 1 / 2 \<and> Hours (Sub now (LastAccessedTime m)) = 2 \<and> Importance m = 8
        \<longrightarrow> \<bar>Score (retrieved ! length pre) - 2.220\<bar> \<le> 0.01"
  proof (intro impI, elim conjE)
    assume "c = 1 / 2" "Hours (Sub now (LastAccessedTime m)) = 2" "Importance m = 8"
    then have "Score (retrieved ! length pre) = 1 / 2 + exp (- 2 / 24) + 8 / 10"
      by (simp add: n)
    then show "\<bar>Score (retrieved ! length pre) - 2.220\<bar> \<le> 0.01"
      using scenario_score by simp
  qed
  from q l o s(1,3,4,5) n b show ?thesis
    by blast
qed


lemma sqrt_4: "sqrt 4 = 2"
  using real_sqrt_abs [of 2] by simp

lemma RetrieveMemories_env_scenario:
  "RetrieveMemories env_scenario ''q'' ([lecture], (0, [])) =
     (Ok [\<lparr>Memory = lecture, Score = 1 / 2 + exp (- 2 / 24) + 8 / 10\<rparr>],
      [lecture\<lparr>LastAccessedTime := 3 * Hour\<rparr>], (4, []))"
  by (simp add: RetrieveMemories_def getEmbedding_def env_scenario_def stub_def lecture_def
      cosineSimilarity_def Hours_eq Sub_def minDuration_def maxDuration_def Hour_def
      insertionSort_def sqrt_4)

theorem RetrieveMemories_score_witness:
  "RetrieveMemories env_scenario ''q'' ([] @ lecture # [], (0, [])) =
     (Ok [\<lparr>Memory = lecture, Score = 1 / 2 + exp (- 2 / 24) + 8 / 10\<rparr>],
      [lecture\<lparr>LastAccessedTime := 3 * Hour\<rparr>], (4, [])) \<and>
   cosineSimilarity [1, 0, 0, 0] [1, 1, 1, 1] = Some (1 / 2) \<and>
   Hours (Sub (2 * Hour) (LastAccessedTime lecture)) = 2 \<and> Importance lecture = 8 \<and>
   \<bar>1 / 2 + exp (- 2 / 24) + 8 / 10 - 2.220\<bar> \<le> (0.01 :: real)"
proof -
  have r: "RetrieveMemories env_scenario ''q'' ([] @ lecture # [], (0, [])) =
     (Ok [\<lparr>Memory = lecture, Score = 1 / 2 + exp (- 2 / 24) + 8 / 10\<rparr>],
      [lecture\<lparr>LastAccessedTime := 3 * Hour\<rparr>], (4, []))"
    using RetrieveMemories_env_scenario by simp
  have c: "cosineSimilarity [1, 0, 0, 0] [1, 1, 1, 1] = Some (1 / 2)"
    by (simp add: cosineSimilarity_def sqrt_4)
  have h: "Hours (Sub (2 * Hour) (LastAccessedTime lecture)) = 2 \<and> Importance lecture = 8"
    by (simp add: Hours_eq Sub_def minDuration_def maxDuration_def Hour_def lecture_def)
  have b: "\<bar>1 / 2 + exp (- 2 / 24) + 8 / 10 - 2.220\<bar> \<le> (0.01 :: real)"
    by (rule scenario_score)
  from RetrieveMemories_score [OF r] r c h b show ?thesis
    by blast
qed

lemma AddMemory_env_drifting:
  "AddMemory env_drifting ''x'' ([], (0, [])) = (Ok (), [drifted_note], (4, [''x'']))"
  by (simp add: AddMemory_def getEmbedding_def rateImportance_def parseImportanceRating_def
      env_drifting_def stub_def TrimSpace_8 ParseFloat_digits_def drifted_note_def)

text \<open>
  Claim C1 as the specification states it fails: the score does not use the embedding
  stored in the record. Here the record was stored with the embedding \<open>[1, 0]\<close>, whose
  cosine with the query's embedding is 1, and is scored \<open>0 + 1 + 0.8\<close>, with the
  embedding \<open>[0, 1]\<close> the client returns at retrieval.
\<close>

theorem RetrieveMemories_score_counterexample:
  "AddMemory env_drifting ''x'' ([], (0, [])) = (Ok (), [drifted_note], (4, [''x''])) \<and>
   getEmbedding env_drifting ''q'' (4, [''x'']) = (Ok [1, 0], (5, [''x''])) \<and>
   RetrieveMemories env_drifting ''q'' ([drifted_note], (4, [''x''])) =
     (Ok [\<lparr>Memory = drifted_note, Score = 9 / 5\<rparr>], [drifted_note], (8, [''x''])) \<and>
   cosineSimilarity [1, 0] (Embedding drifted_note) = Some 1 \<and>
   (9 / 5 :: real) \<noteq>
     1 + exp (- Hours (Sub 0 (LastAccessedTime drifted_note)) / 24) + Importance drifted_note / 10"
proof -
  have g: "getEmbedding env_drifting ''q'' (4, [''x'']) = (Ok [1, 0], (5, [''x'']))"
    by (simp add: getEmbedding_def env_drifting_def stub_def)
  have r: "RetrieveMemories env_drifting ''q'' ([drifted_note], (4, [''x''])) =
     (Ok [\<lparr>Memory = drifted_note, Score = 9 / 5\<rparr>], [drifted_note], (8, [''x'']))"
    by (simp add: RetrieveMemories_def getEmbedding_def env_drifting_def stub_def
        drifted_note_def cosineSimilarity_def Hours_eq Sub_def minDuration_def maxDuration_def
        insertionSort_def)
  have c: "cosineSimilarity [1, 0] (Embedding drifted_note) = Some 1"
    by (simp add: cosineSimilarity_def drifted_note_def)
  have n: "(9 / 5 :: real) \<noteq>
     1 + exp (- Hours (Sub 0 (LastAccessedTime drifted_note)) / 24) + Importance drifted_note / 10"
    by (simp add: Hours_eq Sub_def minDuration_def maxDuration_def drifted_note_def)
  from AddMemory_env_drifting g r c n show ?thesis by simp
qed











lemma RetrieveMemories_loop_Memory:
  "RetrieveMemories_loop env qe ms w = (Ok rs, ms', w') \<Longrightarrow> map Memory rs = ms"
proof (induction ms arbitrary: w rs ms')
  case Nil
  then show ?case by simp
next
  case (Cons m rest)
  from RetrieveMemories_loop_Ok_Cons [OF Cons.prems] Cons.IH show ?case
    by auto
qed


lemmas run_simps = RetrieveMemories_def getEmbedding_def stub_def cosineSimilarity_def Hours_eq
  Sub_def minDuration_def maxDuration_def insertionSort_def




lemma core_eq:
  "m'\<lparr>LastAccessedTime := 0\<rparr> = m\<lparr>LastAccessedTime := 0\<rparr> \<Longrightarrow>
   m' = m\<lparr>LastAccessedTime := LastAccessedTime m'\<rparr>"
  by (cases m; cases m') simp

lemma RetrieveMemories_loop_failure_last:
  "RetrieveMemories_loop env qe ms w = (r, ms', w') \<Longrightarrow> \<forall>out. r \<noteq> Ok out \<Longrightarrow> ms \<noteq> [] \<Longrightarrow>
   ms' \<noteq> [] \<and> last ms' = last ms"
proof (induction ms arbitrary: w r ms' w')
  case Nil
  then show ?case by simp
next
  case (Cons m rest)
  show ?case
  proof (cases "rest = []")
    case True
    with Cons.prems show ?thesis
      by (auto simp: Let_def split: prod.splits result.splits option.splits)
  next
    case False
    with Cons.prems Cons.IH show ?thesis
      by (auto simp: Let_def split: prod.splits result.splits option.splits)
  qed
qed

text \<open>
  Claim C9, as the code has it. Whatever its outcome, \<open>RetrieveMemories\<close> keeps the
  number and the order of the records and every field of every record but
  \<open>LastAccessedTime\<close>. When it succeeds, every record \<open>m\<close> of the store has had its
  \<open>LastAccessedTime\<close> set to a reading of the clock taken during the call, right after
  \<open>m\<close> was scored: one reading for each record. When it fails, the last record has not
  been touched.
\<close>

theorem RetrieveMemories_touches:
  assumes "RetrieveMemories env query (Memories, w) = (r, Memories', w')"
  shows "length Memories' = length Memories \<and>
     (\<forall>i<length Memories.
        Memories' ! i = (Memories ! i)\<lparr>LastAccessedTime := LastAccessedTime (Memories' ! i)\<rparr>) \<and>
     (\<forall>out pre m post. r = Ok out \<and> Memories = pre @ m # post \<longrightarrow>
        (\<exists>queryEmbedding w0 rs1 ms1 w1 memoryEmbedding w2 now w3 accessed w4.
           getEmbedding env query w = (Ok queryEmbedding, w0) \<and>
           RetrieveMemories_loop env queryEmbedding pre w0 = (Ok rs1, ms1, w1) \<and>
           getEmbedding env (Description m) w1 = (Ok memoryEmbedding, w2) \<and>
           Now env w2 = (now, w3) \<and> Now env w3 = (accessed, w4) \<and>
           Memories' ! length pre = m\<lparr>LastAccessedTime := accessed\<rparr>)) \<and>
     ((\<forall>out. r \<noteq> Ok out) \<and> Memories \<noteq> [] \<longrightarrow> last Memories' = last Memories)"
proof -
  have frame: "map (\<lambda>m. m\<lparr>LastAccessedTime := 0\<rparr>) Memories' =
      map (\<lambda>m. m\<lparr>LastAccessedTime := 0\<rparr>) Memories"
    using assms RetrieveMemories_loop_frame [of env _ Memories]
    by (auto simp: RetrieveMemories_def split: prod.splits result.splits)
  then have len: "length Memories' = length Memories"
    by (rule map_eq_imp_length_eq)
  have nth: "\<forall>i<length Memories.
        Memories' ! i = (Memories ! i)\<lparr>LastAccessedTime := LastAccessedTime (Memories' ! i)\<rparr>"
  proof (intro allI impI)
    fix i assume i: "i < length Memories"
    with frame len have "(Memories' ! i)\<lparr>LastAccessedTime := 0\<rparr> = (Memories ! i)\<lparr>LastAccessedTime := 0\<rparr>"
      using nth_map [of i Memories' "\<lambda>m. m\<lparr>LastAccessedTime := 0\<rparr>"]
            nth_map [of i Memories "\<lambda>m. m\<lparr>LastAccessedTime := 0\<rparr>"] by simp
    then show "Memories' ! i = (Memories ! i)\<lparr>LastAccessedTime := LastAccessedTime (Memories' ! i)\<rparr>"
      by (rule core_eq)
  qed
  have ok: "\<forall>out pre m post. r = Ok out \<and> Memories = pre @ m # post \<longrightarrow>
        (\<exists>queryEmbedding w0 rs1 ms1 w1 memoryEmbedding w2 now w3 accessed w4.
           getEmbedding env query w = (Ok queryEmbedding, w0) \<and>
           RetrieveMemories_loop env queryEmbedding pre w0 = (Ok rs1, ms1, w1) \<and>
           getEmbedding env (Description m) w1 = (Ok memoryEmbedding, w2) \<and>
           Now env w2 = (now, w3) \<and> Now env w3 = (accessed, w4) \<and>
           Memories' ! length pre = m\<lparr>LastAccessedTime := accessed\<rparr>)"
  proof (intro allI impI, elim conjE)
    fix out pre m post
    assume r: "r = Ok out" and M: "Memories = pre @ m # post"
    from assms r M obtain queryEmbedding w0 retrieved where
      q: "getEmbedding env query w = (Ok queryEmbedding, w0)"
      and l: "RetrieveMemories_loop env queryEmbedding (pre @ m # post) w0 = (Ok retrieved, Memories', w')"
      by (auto simp: RetrieveMemories_def split: prod.splits result.splits)
    from RetrieveMemories_loop_split [OF l]
    obtain rs1 ms1 w1 e w2 c now w3 accessed w4 rs2 ms2 where
      s: "RetrieveMemories_loop env queryEmbedding pre w0 = (Ok rs1, ms1, w1)"
        "length ms1 = length pre"
        "getEmbedding env (Description m) w1 = (Ok e, w2)"
        "Now env w2 = (now, w3)" "Now env w3 = (accessed, w4)"
        "Memories' = ms1 @ m\<lparr>LastAccessedTime := accessed\<rparr> # ms2"
      by blast
    from s(2,6) have "Memories' ! length pre = m\<lparr>LastAccessedTime := accessed\<rparr>"
      by (simp add: nth_append)
    with q s(1,3,4,5) show "\<exists>queryEmbedding w0 rs1 ms1 w1 memoryEmbedding w2 now w3 accessed w4.
           getEmbedding env query w = (Ok queryEmbedding, w0) \<and>
           RetrieveMemories_loop env queryEmbedding pre w0 = (Ok rs1, ms1, w1) \<and>
           getEmbedding env (Description m) w1 = (Ok memoryEmbedding, w2) \<and>
           Now env w2 = (now, w3) \<and> Now env w3 = (accessed, w4) \<and>
           Memories' ! length pre = m\<lparr>LastAccessedTime := accessed\<rparr>"
      by blast
  qed
  have fail: "(\<forall>out. r \<noteq> Ok out) \<and> Memories \<noteq> [] \<longrightarrow> last Memories' = last Memories"
    using assms RetrieveMemories_loop_failure_last [of env _ Memories]
    by (auto simp: RetrieveMemories_def split: prod.splits result.splits)
  from len nth ok fail show ?thesis by blast
qed

lemma RetrieveMemories_env_lunch_fails:
  "RetrieveMemories env_lunch_fails ''q'' ([breakfast, lunch], (0, [])) =
     (Err (Error ''no embedding''), [breakfast\<lparr>LastAccessedTime := 3\<rparr>, lunch], (5, []))"
  by (simp add: run_simps env_lunch_fails_def breakfast_def lunch_def)

lemma RetrieveMemories_env_ticking:
  "RetrieveMemories env_ticking ''q'' ([breakfast, lunch], (0, [])) =
     (Ok [\<lparr>Memory = breakfast, Score = 3 / 2 + exp (- (1 / 43200000000000))\<rparr>,
          \<lparr>Memory = lunch, Score = 3 / 2 + exp (- (1 / 17280000000000))\<rparr>],
      [breakfast\<lparr>LastAccessedTime := 3\<rparr>, lunch\<lparr>LastAccessedTime := 6\<rparr>], (7, []))"
  by (simp add: run_simps env_ticking_def breakfast_def lunch_def)

theorem RetrieveMemories_touches_witness:
  "RetrieveMemories env_ticking ''q'' ([breakfast] @ lunch # [], (0, [])) =
     (Ok [\<lparr>Memory = breakfast, Score = 3 / 2 + exp (- (1 / 43200000000000))\<rparr>,
          \<lparr>Memory = lunch, Score = 3 / 2 + exp (- (1 / 17280000000000))\<rparr>],
      [breakfast\<lparr>LastAccessedTime := 3\<rparr>, lunch\<lparr>LastAccessedTime := 6\<rparr>], (7, [])) \<and>
   Now env_ticking (5, []) = (5, (6, [])) \<and> Now env_ticking (6, []) = (6, (7, [])) \<and>
   RetrieveMemories env_lunch_fails ''q'' ([breakfast, lunch], (0, [])) =
     (Err (Error ''no embedding''), [breakfast\<lparr>LastAccessedTime := 3\<rparr>, lunch], (5, [])) \<and>
   [breakfast, lunch] \<noteq> [] \<and>
   last [breakfast\<lparr>LastAccessedTime := 3\<rparr>, lunch] = last [breakfast, lunch]"
proof -
  have a: "RetrieveMemories env_ticking ''q'' ([breakfast] @ lunch # [], (0, [])) =
     (Ok [\<lparr>Memory = breakfast, Score = 3 / 2 + exp (- (1 / 43200000000000))\<rparr>,
          \<lparr>Memory = lunch, Score = 3 / 2 + exp (- (1 / 17280000000000))\<rparr>],
      [breakfast\<lparr>LastAccessedTime := 3\<rparr>, lunch\<lparr>LastAccessedTime := 6\<rparr>], (7, []))"
    using RetrieveMemories_env_ticking by simp
  have n: "Now env_ticking (5, []) = (5, (6, [])) \<and> Now env_ticking (6, []) = (6, (7, []))"
    by (simp add: env_ticking_def stub_def)
  from RetrieveMemories_touches [OF a] RetrieveMemories_touches [OF RetrieveMemories_env_lunch_fails]
    a n RetrieveMemories_env_lunch_fails
  show ?thesis by simp
qed

text \<open>
  Claim C9 as the specification states it fails. The query's embedding succeeds and the
  embedding of the second record's description fails: the first record has been touched,
  the second has not. And in a run that succeeds, the two records do not get the same
  moment: each gets a clock reading of its own (3 and 6).
\<close>

theorem RetrieveMemories_touches_counterexample:
  "getEmbedding env_lunch_fails ''q'' (0, []) = (Ok [1, 0], (1, [])) \<and>
   RetrieveMemories env_lunch_fails ''q'' ([breakfast, lunch], (0, [])) =
     (Err (Error ''no embedding''), [breakfast\<lparr>LastAccessedTime := 3\<rparr>, lunch], (5, [])) \<and>
   LastAccessedTime lunch = 0 \<and>
   RetrieveMemories env_ticking ''q'' ([breakfast, lunch], (0, [])) =
     (Ok [\<lparr>Memory = breakfast, Score = 3 / 2 + exp (- (1 / 43200000000000))\<rparr>,
          \<lparr>Memory = lunch, Score = 3 / 2 + exp (- (1 / 17280000000000))\<rparr>],
      [breakfast\<lparr>LastAccessedTime := 3\<rparr>, lunch\<lparr>LastAccessedTime := 6\<rparr>], (7, []))"
proof -
  have g: "getEmbedding env_lunch_fails ''q'' (0, []) = (Ok [1, 0], (1, []))"
    by (simp add: getEmbedding_def env_lunch_fails_def stub_def)
  have l: "LastAccessedTime lunch = 0"
    by (simp add: lunch_def)
  from g l RetrieveMemories_env_lunch_fails RetrieveMemories_env_ticking show ?thesis
    by simp
qed

subsection \<open>Reflection\<close>

lemma Reflect_questions_append:
  "Reflect_questions env pre s = (Ok (), s1) \<Longrightarrow>
   Reflect_questions env (pre @ qs) s = Reflect_questions env qs s1"
proof (induction pre arbitrary: s)
  case Nil
  then show ?case by simp
next
  case (Cons q pre)
  then show ?case
    by (auto split: prod.splits result.splits)
qed

lemma AddMemory_store:
  "AddMemory env d (ms, w) = (r, ms', w') \<Longrightarrow>
   ms' = ms \<or> (\<exists>m. ms' = ms @ [m] \<and> Description m = d)"
  by (auto simp: AddMemory_def split: prod.splits result.splits)

lemma Reflect_insights_store:
  "Reflect_insights env insights (ms, w) = (r, ms', w') \<Longrightarrow>
   \<exists>added. ms' = ms @ added \<and> subseq (map Description added) insights"
proof (induction insights arbitrary: ms w)
  case Nil
  then show ?case by simp
next
  case (Cons i insights)
  obtain r1 ms1 w1 where a: "AddMemory env i (ms, w) = (r1, ms1, w1)"
    by (cases "AddMemory env i (ms, w)") auto
  from AddMemory_store [OF a] consider "ms1 = ms" | m where "ms1 = ms @ [m]" "Description m = i"
    by blast
  then show ?case
  proof cases
    case 1
    show ?thesis
    proof (cases "r1 = Panic")
      case True
      with Cons.prems a 1 show ?thesis by auto
    next
      case False
      with Cons.prems a have "Reflect_insights env insights (ms1, w1) = (r, ms', w')"
        by (auto split: result.splits)
      from Cons.IH [OF this] 1 show ?thesis
        by (auto intro: subseq_Cons')
    qed
  next
    case 2
    show ?thesis
    proof (cases "r1 = Panic")
      case True
      with Cons.prems a 2 show ?thesis
        by (auto intro!: exI [of _ "[m]"])
    next
      case False
      with Cons.prems a have "Reflect_insights env insights (ms1, w1) = (r, ms', w')"
        by (auto split: result.splits)
      from Cons.IH [OF this] obtain added where
        "ms' = ms1 @ added" "subseq (map Description added) insights"
        by blast
      with 2 show ?thesis
        by (auto intro!: exI [of _ "m # added"])
    qed
  qed
qed

lemma RetrieveMemories_core:
  "RetrieveMemories env q (ms, w) = (r, ms', w') \<Longrightarrow> map core ms' = map core ms"
proof -
  have c: "core = (\<lambda>m. m\<lparr>LastAccessedTime := 0\<rparr>)"
    by (simp add: fun_eq_iff core_def)
  assume "RetrieveMemories env q (ms, w) = (r, ms', w')"
  then show ?thesis
    unfolding c using RetrieveMemories_loop_frame [of env _ ms]
    by (auto simp: RetrieveMemories_def split: prod.splits result.splits)
qed

lemma Reflect_questions_prefix:
  "Reflect_questions env qs (ms, w) = (r, ms', w') \<Longrightarrow> prefix (map core ms) (map core ms')"
proof (induction qs arbitrary: ms w)
  case Nil
  then show ?case by simp
next
  case (Cons q qs)
  obtain r1 ms1 w1 where a: "RetrieveMemories env q (ms, w) = (r1, ms1, w1)"
    by (cases "RetrieveMemories env q (ms, w)") auto
  note c = RetrieveMemories_core [OF a]
  show ?case
  proof (cases r1)
    case (Ok rs)
    obtain r2 w2 where g: "generateInsights env q rs w1 = (r2, w2)"
      by (cases "generateInsights env q rs w1") auto
    show ?thesis
    proof (cases r2)
      case (Ok ins)
      obtain r3 ms3 w3 where i: "Reflect_insights env ins (ms1, w2) = (r3, ms3, w3)"
        by (cases "Reflect_insights env ins (ms1, w2)") auto
      from Reflect_insights_store [OF i] have p: "prefix (map core ms1) (map core ms3)"
        by auto
      show ?thesis
      proof (cases "r3 = Panic")
        case True
        with Cons.prems a \<open>r1 = Ok rs\<close> g Ok i p c show ?thesis by auto
      next
        case False
        with Cons.prems a \<open>r1 = Ok rs\<close> g Ok i
        have "Reflect_questions env qs (ms3, w3) = (r, ms', w')"
          by (auto split: result.splits)
        from Cons.IH [OF this] p c show ?thesis
          by (metis prefix_order.order_trans)
      qed
    next
      case (Err e)
      with Cons.prems a \<open>r1 = Ok rs\<close> g c show ?thesis by auto
    next
      case Panic
      with Cons.prems a \<open>r1 = Ok rs\<close> g c show ?thesis by auto
    qed
  next
    case (Err e)
    with Cons.prems a c show ?thesis by auto
  next
    case Panic
    with Cons.prems a c show ?thesis by auto
  qed
qed

lemma prompts_distinct:
  "generateReflectionQuestions_sysPrompt \<noteq> rateImportance_sysPrompt"
  "generateInsights_sysPrompt \<noteq> rateImportance_sysPrompt"
  "generateInsights_sysPrompt \<noteq> generateReflectionQuestions_sysPrompt"
  by (simp_all add: generateReflectionQuestions_sysPrompt_def rateImportance_sysPrompt_def
      generateInsights_sysPrompt_def)

lemma parse_facts:
  "parseQuestions three_questions = [''Q1'', ''Q2'', ''Q3'']"
  "parseQuestions two_questions = [''Q1'', ''Q2'']"
  "parseQuestions ''1. Q1'' = [''Q1'']"
  "parseQuestions '''' = []"
  "parseInsights one_insight = [''A'']"
  "parseInsights two_insights = [''A'', ''B'']"
  by (code_simp)+

lemma Itoa_facts: "Itoa (Suc 0) = ''1''" "Itoa (Suc (Suc 0)) = ''2''" "Itoa 1 = ''1''" "Itoa 2 = ''2''"
  by (code_simp)+

lemmas reflect_simps = Reflect_def generateReflectionQuestions_def generateInsights_def
  AddMemory_def rateImportance_def parseImportanceRating_def ParseFloat_digits_def
  chat_reflection_def prompts_distinct parse_facts Itoa_facts TrimSpace_8 run_simps
  breakfast_def insight_A_def insight_B_def prompt_Q1_def prompt_Q2_def

lemma Reflect_env_silent:
  "Reflect env_silent [breakfast] ([breakfast], (0, [])) =
     (Ok (), [breakfast], (1, [''had breakfast'']))"
  by (simp add: reflect_simps env_silent_def)

lemma Reflect_env_unembeddable:
  "Reflect env_unembeddable [breakfast] ([breakfast], (0, [])) =
     (Ok (), [breakfast, insight_B], (11, [''had breakfast'', prompt_Q1, ''B'']))"
  by (simp add: reflect_simps env_unembeddable_def)

lemma AddMemory_env_unembeddable:
  "AddMemory env_unembeddable ''A'' ([breakfast], (6, [''had breakfast'', prompt_Q1])) =
     (Err (Errorf ''failed to get embedding: '' (Error ''no embedding'')), [breakfast],
      (7, [''had breakfast'', prompt_Q1]))"
  by (simp add: reflect_simps env_unembeddable_def)

lemma Reflect_env_two_questions:
  "Reflect env_two_questions [breakfast] ([breakfast], (0, [])) =
     (Ok (), [breakfast, insight_A, insight_A],
      (22, [''had breakfast'', prompt_Q1, ''A'', prompt_Q2, ''A'']))"
  by (simp add: reflect_simps env_two_questions_def)

text \<open>
  Claim C6, as the code has it. When the completion for the questions succeeds and no
  question is parsed from it, \<open>Reflect\<close> returns \<open>nil\<close>: the loop over the questions
  runs no iteration, and the memories and the outside world are as the completion left
  them.
\<close>

theorem Reflect_no_questions:
  assumes "generateReflectionQuestions env (map Description memories) w = (Ok [], w1)"
  shows "Reflect env memories (Memories, w) = (Ok (), Memories, w1)"
  using assms by (simp add: Reflect_def)

theorem Reflect_no_questions_witness:
  "generateReflectionQuestions env_silent (map Description [breakfast]) (0, []) =
     (Ok [], (1, [''had breakfast''])) \<and>
   Reflect env_silent [breakfast] ([lunch, breakfast], (0, [])) =
     (Ok (), [lunch, breakfast], (1, [''had breakfast'']))"
proof -
  have g: "generateReflectionQuestions env_silent (map Description [breakfast]) (0, []) =
     (Ok [], (1, [''had breakfast'']))"
    by (simp add: reflect_simps env_silent_def)
  from Reflect_no_questions [OF g] g show ?thesis by simp
qed

text \<open>
  Claim C6 as the specification states it fails: the completion succeeds with an empty
  text, no question is parsed, and \<open>Reflect\<close> returns \<open>nil\<close>, not an error.
\<close>

theorem Reflect_no_questions_counterexample:
  "CreateChatCompletion env_silent
     \<lparr>Model = GPT4oMini,
      Messages = [\<lparr>Role = ''system'', Content = generateReflectionQuestions_sysPrompt\<rparr>,
                  \<lparr>Role = ''user'', Content = ''had breakfast''\<rparr>],
      Temperature = 1\<rparr> (0, []) = (Inr [''''], (1, [''had breakfast''])) \<and>
   parseQuestions '''' = [] \<and>
   Reflect env_silent [breakfast] ([breakfast], (0, [])) =
     (Ok (), [breakfast], (1, [''had breakfast'']))"
proof -
  have c: "CreateChatCompletion env_silent
     \<lparr>Model = GPT4oMini,
      Messages = [\<lparr>Role = ''system'', Content = generateReflectionQuestions_sysPrompt\<rparr>,
                  \<lparr>Role = ''user'', Content = ''had breakfast''\<rparr>],
      Temperature = 1\<rparr> (0, []) = (Inr [''''], (1, [''had breakfast'']))"
    by (simp add: env_silent_def stub_def)
  from c parse_facts(4) Reflect_env_silent show ?thesis by simp
qed

text \<open>
  Claim C3, as the code has it. Let the questions \<open>pre\<close> have been worked through
  (their insights are in \<open>Memories1\<close>, which extends the memories the pass started
  with). If the retrieval for the next question \<open>q\<close> fails, or the completion for its
  insights fails, \<open>Reflect\<close> returns that error at once, and the memories are
  \<open>Memories1\<close> up to access times: nothing is rolled back and no later question is
  tried. An error of the completion for the questions is returned as well, with the
  memories unchanged. An error of \<open>AddMemory\<close> for an insight is not returned: the
  insight is left out and the loop goes on with the next insight.
\<close>

theorem Reflect_failure_policy:
  assumes "Reflect_questions env pre (Memories, w) = (Ok (), Memories1, w1)"
  shows "prefix (map core Memories) (map core Memories1) \<and>
    (RetrieveMemories env q (Memories1, w1) = (Err err, Memories2, w2) \<longrightarrow>
       Reflect_questions env (pre @ q # post) (Memories, w) = (Err err, Memories2, w2) \<and>
       map core Memories2 = map core Memories1) \<and>
    (RetrieveMemories env q (Memories1, w1) = (Ok retrieved, Memories2, w2) \<and>
     generateInsights env q retrieved w2 = (Err err, w3) \<longrightarrow>
       Reflect_questions env (pre @ q # post) (Memories, w) = (Err err, Memories2, w3) \<and>
       map core Memories2 = map core Memories1) \<and>
    (generateReflectionQuestions env (map Description memories) w0 = (Err err, w) \<longrightarrow>
       Reflect env memories (Memories, w0) = (Err err, Memories, w)) \<and>
    (generateReflectionQuestions env (map Description memories) w0 = (Ok (pre @ q # post), w) \<longrightarrow>
       Reflect env memories (Memories, w0) = Reflect_questions env (pre @ q # post) (Memories, w)) \<and>
    (AddMemory env insight (M, v) = (Err err, M', v') \<longrightarrow>
       M' = M \<and>
       Reflect_insights env (insight # insights) (M, v) = Reflect_insights env insights (M, v'))"
proof -
  note a = Reflect_questions_append [OF assms, of "q # post"]
  have 1: "prefix (map core Memories) (map core Memories1)"
    using assms by (rule Reflect_questions_prefix)
  have 2: "RetrieveMemories env q (Memories1, w1) = (Err err, Memories2, w2) \<longrightarrow>
       Reflect_questions env (pre @ q # post) (Memories, w) = (Err err, Memories2, w2) \<and>
       map core Memories2 = map core Memories1"
    using a RetrieveMemories_core [of env q Memories1 w1] by simp
  have 3: "RetrieveMemories env q (Memories1, w1) = (Ok retrieved, Memories2, w2) \<and>
     generateInsights env q retrieved w2 = (Err err, w3) \<longrightarrow>
       Reflect_questions env (pre @ q # post) (Memories, w) = (Err err, Memories2, w3) \<and>
       map core Memories2 = map core Memories1"
    using a RetrieveMemories_core [of env q Memories1 w1] by simp
  have 4: "generateReflectionQuestions env (map Description memories) w0 = (Err err, w) \<longrightarrow>
       Reflect env memories (Memories, w0) = (Err err, Memories, w)"
    by (simp add: Reflect_def)
  have 5: "generateReflectionQuestions env (map Description memories) w0 = (Ok (pre @ q # post), w) \<longrightarrow>
       Reflect env memories (Memories, w0) = Reflect_questions env (pre @ q # post) (Memories, w)"
    by (simp add: Reflect_def)
  have 6: "AddMemory env insight (M, v) = (Err err, M', v') \<longrightarrow>
       M' = M \<and>
       Reflect_insights env (insight # insights) (M, v) = Reflect_insights env insights (M, v')"
    by (auto simp: AddMemory_def split: prod.splits result.splits)
  from 1 2 3 4 5 6 show ?thesis by blast
qed

lemma Reflect_questions_env_second_fails:
  "Reflect_questions env_second_fails [''Q1''] ([breakfast], (1, [''had breakfast''])) =
     (Ok (), [breakfast, insight_A], (10, [''had breakfast'', prompt_Q1, ''A'']))"
  by (simp add: reflect_simps env_second_fails_def)

lemma RetrieveMemories_env_second_fails:
  "RetrieveMemories env_second_fails ''Q2''
     ([breakfast, insight_A], (10, [''had breakfast'', prompt_Q1, ''A''])) =
     (Ok [\<lparr>Memory = insight_A, Score = 14 / 5\<rparr>, \<lparr>Memory = breakfast, Score = 5 / 2\<rparr>],
      [breakfast, insight_A], (17, [''had breakfast'', prompt_Q1, ''A'']))"
  by (simp add: reflect_simps env_second_fails_def)

lemma generateInsights_env_second_fails:
  "generateInsights env_second_fails ''Q2''
     [\<lparr>Memory = insight_A, Score = 14 / 5\<rparr>, \<lparr>Memory = breakfast, Score = 5 / 2\<rparr>]
     (17, [''had breakfast'', prompt_Q1, ''A'']) =
     (Err (Error ''no completion''), (18, [''had breakfast'', prompt_Q1, ''A'', prompt_Q2]))"
  by (simp add: reflect_simps env_second_fails_def)

lemma generateReflectionQuestions_env_second_fails:
  "generateReflectionQuestions env_second_fails (map Description [breakfast]) (0, []) =
     (Ok ([''Q1''] @ ''Q2'' # [''Q3'']), (1, [''had breakfast'']))"
  by (simp add: reflect_simps env_second_fails_def)

lemma Reflect_questions_env_retrieval_fails:
  "Reflect_questions env_retrieval_fails [''Q1''] ([breakfast], (1, [''had breakfast''])) =
     (Ok (), [breakfast, insight_A], (10, [''had breakfast'', prompt_Q1, ''A'']))"
  by (simp add: reflect_simps env_retrieval_fails_def)

lemma RetrieveMemories_env_retrieval_fails:
  "RetrieveMemories env_retrieval_fails ''Q2''
     ([breakfast, insight_A], (10, [''had breakfast'', prompt_Q1, ''A''])) =
     (Err (Error ''no embedding''), [breakfast, insight_A],
      (11, [''had breakfast'', prompt_Q1, ''A'']))"
  by (simp add: reflect_simps env_retrieval_fails_def)

lemma generateReflectionQuestions_env_retrieval_fails:
  "generateReflectionQuestions env_retrieval_fails (map Description [breakfast]) (0, []) =
     (Ok ([''Q1''] @ ''Q2'' # [''Q3'']), (1, [''had breakfast'']))"
  by (simp add: reflect_simps env_retrieval_fails_def)

lemma generateReflectionQuestions_env_no_completion:
  "generateReflectionQuestions env_no_completion (map Description [breakfast]) (0, []) =
     (Err (Error ''no completion''), (1, [''had breakfast'']))"
  by (simp add: reflect_simps env_no_completion_def)

theorem Reflect_failure_policy_witness:
  "Reflect_questions env_second_fails [''Q1''] ([breakfast], (1, [''had breakfast''])) =
     (Ok (), [breakfast, insight_A], (10, [''had breakfast'', prompt_Q1, ''A''])) \<and>
   RetrieveMemories env_second_fails ''Q2''
     ([breakfast, insight_A], (10, [''had breakfast'', prompt_Q1, ''A''])) =
     (Ok [\<lparr>Memory = insight_A, Score = 14 / 5\<rparr>, \<lparr>Memory = breakfast, Score = 5 / 2\<rparr>],
      [breakfast, insight_A], (17, [''had breakfast'', prompt_Q1, ''A''])) \<and>
   generateInsights env_second_fails ''Q2''
     [\<lparr>Memory = insight_A, Score = 14 / 5\<rparr>, \<lparr>Memory = breakfast, Score = 5 / 2\<rparr>]
     (17, [''had breakfast'', prompt_Q1, ''A'']) =
     (Err (Error ''no completion''), (18, [''had breakfast'', prompt_Q1, ''A'', prompt_Q2])) \<and>
   Reflect env_second_fails [breakfast] ([breakfast], (0, [])) =
     (Err (Error ''no completion''), [breakfast, insight_A],
      (18, [''had breakfast'', prompt_Q1, ''A'', prompt_Q2])) \<and>
   RetrieveMemories env_retrieval_fails ''Q2''
     ([breakfast, insight_A], (10, [''had breakfast'', prompt_Q1, ''A''])) =
     (Err (Error ''no embedding''), [breakfast, insight_A],
      (11, [''had breakfast'', prompt_Q1, ''A''])) \<and>
   Reflect env_retrieval_fails [breakfast] ([breakfast], (0, [])) =
     (Err (Error ''no embedding''), [breakfast, insight_A],
      (11, [''had breakfast'', prompt_Q1, ''A''])) \<and>
   Reflect env_no_completion [breakfast] ([breakfast], (0, [])) =
     (Err (Error ''no completion''), [breakfast], (1, [''had breakfast''])) \<and>
   AddMemory env_unembeddable ''A'' ([breakfast], (6, [''had breakfast'', prompt_Q1])) =
     (Err (Errorf ''failed to get embedding: '' (Error ''no embedding'')), [breakfast],
      (7, [''had breakfast'', prompt_Q1])) \<and>
   Reflect_insights env_unembeddable [''A'', ''B''] ([breakfast], (6, [''had breakfast'', prompt_Q1])) =
     Reflect_insights env_unembeddable [''B''] ([breakfast], (7, [''had breakfast'', prompt_Q1]))"
proof -
  note t = Reflect_failure_policy [OF Reflect_questions_env_second_fails,
      where q = "''Q2''" and post = "[''Q3'']" and memories = "[breakfast]" and ?w0.0 = "(0, [])"]
  have r: "Reflect env_second_fails [breakfast] ([breakfast], (0, [])) =
     (Err (Error ''no completion''), [breakfast, insight_A],
      (18, [''had breakfast'', prompt_Q1, ''A'', prompt_Q2]))"
    using t RetrieveMemories_env_second_fails generateInsights_env_second_fails
      generateReflectionQuestions_env_second_fails
    by simp
  note t' = Reflect_failure_policy [OF Reflect_questions_env_retrieval_fails,
      where q = "''Q2''" and post = "[''Q3'']" and memories = "[breakfast]" and ?w0.0 = "(0, [])"]
  have r': "Reflect env_retrieval_fails [breakfast] ([breakfast], (0, [])) =
     (Err (Error ''no embedding''), [breakfast, insight_A],
      (11, [''had breakfast'', prompt_Q1, ''A'']))"
    using t' RetrieveMemories_env_retrieval_fails generateReflectionQuestions_env_retrieval_fails
    by simp
  have e: "Reflect_questions env_no_completion [] ([breakfast], (1, [''had breakfast''])) =
      (Ok (), [breakfast], (1, [''had breakfast'']))"
    by simp
  note t'' = Reflect_failure_policy [OF e, where memories = "[breakfast]" and ?w0.0 = "(0, [])"]
  have r'': "Reflect env_no_completion [breakfast] ([breakfast], (0, [])) =
     (Err (Error ''no completion''), [breakfast], (1, [''had breakfast'']))"
    using t'' generateReflectionQuestions_env_no_completion by simp
  have "Reflect_questions env_unembeddable [] ([breakfast], (0, [])) = (Ok (), [breakfast], (0, []))"
    by simp
  note u = Reflect_failure_policy [OF this,
      where insight = "''A''" and insights = "[''B'']"
        and M = "[breakfast]" and v = "(6, [''had breakfast'', prompt_Q1])"]
  have i: "Reflect_insights env_unembeddable [''A'', ''B''] ([breakfast], (6, [''had breakfast'', prompt_Q1])) =
     Reflect_insights env_unembeddable [''B''] ([breakfast], (7, [''had breakfast'', prompt_Q1]))"
    using u AddMemory_env_unembeddable by simp
  from r r' r'' i Reflect_questions_env_second_fails RetrieveMemories_env_second_fails
    generateInsights_env_second_fails RetrieveMemories_env_retrieval_fails
    AddMemory_env_unembeddable
  show ?thesis by simp
qed

text \<open>
  Claim C3 as the specification states it fails for a failure of appending an insight:
  \<open>AddMemory\<close> fails for the insight \<open>A\<close>, and \<open>Reflect\<close> goes on, appends the next
  insight \<open>B\<close> and returns \<open>nil\<close>.
\<close>

theorem Reflect_failure_policy_counterexample:
  "AddMemory env_unembeddable ''A'' ([breakfast], (6, [''had breakfast'', prompt_Q1])) =
     (Err (Errorf ''failed to get embedding: '' (Error ''no embedding'')), [breakfast],
      (7, [''had breakfast'', prompt_Q1])) \<and>
   Reflect env_unembeddable [breakfast] ([breakfast], (0, [])) =
     (Ok (), [breakfast, insight_B], (11, [''had breakfast'', prompt_Q1, ''B'']))"
  using AddMemory_env_unembeddable Reflect_env_unembeddable by simp

text \<open>
  Claim C4, as the code has it. The retrieval for a question \<open>q\<close> runs on the memories
  as the questions before it left them (\<open>Memories1\<close>, which extends the memories the
  pass started with by the insights appended so far), not on a snapshot taken before the
  pass: every record of \<open>Memories1\<close> is scored and is in what the retrieval returns.
\<close>

theorem Reflect_retrieves_live_store:
  assumes "Reflect_questions env pre (Memories, w) = (Ok (), Memories1, w1)"
  shows "Reflect_questions env (pre @ q # post) (Memories, w) =
           Reflect_questions env (q # post) (Memories1, w1) \<and>
         prefix (map core Memories) (map core Memories1) \<and>
         (RetrieveMemories env q (Memories1, w1) = (Ok out, Memories2, w2) \<longrightarrow>
            (\<exists>queryEmbedding w0 retrieved.
               getEmbedding env q w1 = (Ok queryEmbedding, w0) \<and>
               RetrieveMemories_loop env queryEmbedding Memories1 w0 = (Ok retrieved, Memories2, w2) \<and>
               map Memory retrieved = Memories1 \<and>
               out = sort_Slice env retrieved (\<lambda>x y. Score x > Score y)))"
proof -
  have 1: "Reflect_questions env (pre @ q # post) (Memories, w) =
           Reflect_questions env (q # post) (Memories1, w1)"
    using assms by (rule Reflect_questions_append)
  have 2: "prefix (map core Memories) (map core Memories1)"
    using assms by (rule Reflect_questions_prefix)
  have 3: "RetrieveMemories env q (Memories1, w1) = (Ok out, Memories2, w2) \<longrightarrow>
            (\<exists>queryEmbedding w0 retrieved.
               getEmbedding env q w1 = (Ok queryEmbedding, w0) \<and>
               RetrieveMemories_loop env queryEmbedding Memories1 w0 = (Ok retrieved, Memories2, w2) \<and>
               map Memory retrieved = Memories1 \<and>
               out = sort_Slice env retrieved (\<lambda>x y. Score x > Score y))"
  proof
    assume "RetrieveMemories env q (Memories1, w1) = (Ok out, Memories2, w2)"
    then obtain queryEmbedding w0 retrieved where
      g: "getEmbedding env q w1 = (Ok queryEmbedding, w0)"
      and l: "RetrieveMemories_loop env queryEmbedding Memories1 w0 = (Ok retrieved, Memories2, w2)"
      and o: "out = sort_Slice env retrieved (\<lambda>x y. Score x > Score y)"
      by (auto simp: RetrieveMemories_def split: prod.splits result.splits)
    from g l o RetrieveMemories_loop_Memory [OF l]
    show "\<exists>queryEmbedding w0 retrieved.
               getEmbedding env q w1 = (Ok queryEmbedding, w0) \<and>
               RetrieveMemories_loop env queryEmbedding Memories1 w0 = (Ok retrieved, Memories2, w2) \<and>
               map Memory retrieved = Memories1 \<and>
               out = sort_Slice env retrieved (\<lambda>x y. Score x > Score y)"
      by blast
  qed
  from 1 2 3 show ?thesis by blast
qed

lemma Reflect_questions_env_two_questions:
  "Reflect_questions env_two_questions [''Q1''] ([breakfast], (1, [''had breakfast''])) =
     (Ok (), [breakfast, insight_A], (10, [''had breakfast'', prompt_Q1, ''A'']))"
  by (simp add: reflect_simps env_two_questions_def)

lemma RetrieveMemories_env_two_questions:
  "RetrieveMemories env_two_questions ''Q2''
     ([breakfast, insight_A], (10, [''had breakfast'', prompt_Q1, ''A''])) =
     (Ok [\<lparr>Memory = insight_A, Score = 14 / 5\<rparr>, \<lparr>Memory = breakfast, Score = 5 / 2\<rparr>],
      [breakfast, insight_A], (17, [''had breakfast'', prompt_Q1, ''A'']))"
  by (simp add: reflect_simps env_two_questions_def)

theorem Reflect_retrieves_live_store_witness:
  "Reflect_questions env_two_questions [''Q1''] ([breakfast], (1, [''had breakfast''])) =
     (Ok (), [breakfast, insight_A], (10, [''had breakfast'', prompt_Q1, ''A''])) \<and>
   RetrieveMemories env_two_questions ''Q2''
     ([breakfast, insight_A], (10, [''had breakfast'', prompt_Q1, ''A''])) =
     (Ok [\<lparr>Memory = insight_A, Score = 14 / 5\<rparr>, \<lparr>Memory = breakfast, Score = 5 / 2\<rparr>],
      [breakfast, insight_A], (17, [''had breakfast'', prompt_Q1, ''A''])) \<and>
   Reflect_questions env_two_questions ([''Q1''] @ ''Q2'' # []) ([breakfast], (1, [''had breakfast''])) =
     Reflect_questions env_two_questions [''Q2'']
       ([breakfast, insight_A], (10, [''had breakfast'', prompt_Q1, ''A'']))"
  using Reflect_retrieves_live_store [OF Reflect_questions_env_two_questions, of "''Q2''" "[]"]
    Reflect_questions_env_two_questions RetrieveMemories_env_two_questions
  by simp

text \<open>
  Claim C4 as the specification states it fails: the insight \<open>A\<close> appended for the
  question \<open>Q1\<close> is in the retrieval for \<open>Q2\<close>, where it ranks first, and in the prompt
  sent for the insights of \<open>Q2\<close>.
\<close>

theorem Reflect_retrieves_live_store_counterexample:
  "Reflect env_two_questions [breakfast] ([breakfast], (0, [])) =
     (Ok (), [breakfast, insight_A, insight_A],
      (22, [''had breakfast'', prompt_Q1, ''A'', prompt_Q2, ''A''])) \<and>
   Reflect_questions env_two_questions [''Q1''] ([breakfast], (1, [''had breakfast''])) =
     (Ok (), [breakfast, insight_A], (10, [''had breakfast'', prompt_Q1, ''A''])) \<and>
   RetrieveMemories env_two_questions ''Q2''
     ([breakfast, insight_A], (10, [''had breakfast'', prompt_Q1, ''A''])) =
     (Ok [\<lparr>Memory = insight_A, Score = 14 / 5\<rparr>, \<lparr>Memory = breakfast, Score = 5 / 2\<rparr>],
      [breakfast, insight_A], (17, [''had breakfast'', prompt_Q1, ''A'']))"
  using Reflect_env_two_questions Reflect_questions_env_two_questions
    RetrieveMemories_env_two_questions
  by simp

end
